theory Spec2Isabelle
  imports Main "HOL-Library.Sublist"
begin

section \<open>The HTTP transport and the runtime\<close>

text \<open>
  The client of \<^verbatim>\<open>questrade-client.ts\<close> talks to the outside through three things
  only: \<^verbatim>\<open>fetch\<close>, the clock \<^verbatim>\<open>Date.now()\<close> and the JSON decoding of a response
  body. None of them is code of the repository, so they are parameters of the model,
  collected in a \<open>runtime\<close>; the outside world is a state of an arbitrary type \<open>'w\<close>
  that \<^verbatim>\<open>fetch\<close> may change and the clock reads.
\<close>

record request =
  url :: string
  http_method :: string
  headers :: "(string \<times> string) list"

record response =
  status :: int
  body_text :: string

text \<open>\<^verbatim>\<open>res.ok\<close> of node-fetch: the status is in the range 200 to 299.\<close>

definition ok :: "response \<Rightarrow> bool" where
  "ok res = (200 \<le> status res \<and> status res < 300)"

text \<open>
  Modelled from the spec: the type \<^verbatim>\<open>QuestradeTokenRefreshResponse\<close> is declared in
  \<^verbatim>\<open>api-types\<close>, which is not among the sources. The success body of the authorization
  endpoint is \<^verbatim>\<open>{access_token, refresh_token, api_server, expires_in}\<close>, the last a
  number of seconds.

  The declaration is not enforced when the program runs: \<^verbatim>\<open>res.json()\<close> gives whatever
  object the body holds, and \<open>updateTokens\<close> assigns its fields as they are. So each
  field has here the declared type of the field of the client that receives it: the
  access token may be absent (\<^verbatim>\<open>accessToken?: string\<close>; reading an absent field gives
  \<^verbatim>\<open>undefined\<close>), the other three are a string, a string and a whole number.
\<close>

record QuestradeTokenRefreshResponse =
  access_token :: "string option"
  refresh_token :: string
  api_server :: string
  expires_in :: int

text \<open>
  \<open>QuestradeApiError message code body\<close> is the class of the source. \<open>TransportError\<close>
  stands for whatever node-fetch itself raises (a request that gets no response, a body
  that is not JSON); the source does not catch it, so it reaches the caller.
\<close>

datatype error =
  QuestradeApiError string int string
| TransportError string

record ('w, 'j) runtime =
  fetch :: "request \<Rightarrow> 'w \<Rightarrow> (string + response) \<times> 'w"
  Date_now :: "'w \<Rightarrow> int"
  json_tokens :: "string \<Rightarrow> QuestradeTokenRefreshResponse option"
  json_any :: "string \<Rightarrow> 'j option"

definition AUTH_URL :: string where
  "AUTH_URL = ''https://login.questrade.com/oauth2/token''"

definition CODE_BAD_REQUEST :: int where
  "CODE_BAD_REQUEST = 400"

text \<open>\<^verbatim>\<open>Math.floor(Date.now() / 1000)\<close>; \<open>div\<close> on \<open>int\<close> rounds down as \<^verbatim>\<open>Math.floor\<close> does.\<close>

definition getCurrentTimeSeconds :: "('w, 'j) runtime \<Rightarrow> 'w \<Rightarrow> int" where
  "getCurrentTimeSeconds rt w = Date_now rt w div 1000"

section \<open>The client\<close>

record QuestradeClient =
  refreshToken :: string
  accessToken :: "string option"
  expirationTime :: int
  apiServer :: string

text \<open>
  What can be observed from outside: the requests handed to \<^verbatim>\<open>fetch\<close> and the events
  emitted on the client's \<^verbatim>\<open>emitter\<close>, in order. An emitted event records the fields of
  the client at the moment of the emission, which is what a listener reads through the
  accessors. The listeners themselves are code of the caller and are not modelled.
\<close>

datatype event =
  Fetched request
| Emitted string QuestradeClient

record 'w sys =
  client :: QuestradeClient
  world :: 'w
  trace :: "event list"

definition constructor :: "string \<Rightarrow> QuestradeClient" where
  "constructor rtok =
     \<lparr>refreshToken = rtok, accessToken = None, expirationTime = - 1,
      apiServer = ''https://api01.iq.questrade.com''\<rparr>"

definition init :: "string \<Rightarrow> 'w \<Rightarrow> 'w sys" where
  "init rtok w = \<lparr>client = constructor rtok, world = w, trace = []\<rparr>"

text \<open>\<^verbatim>\<open>s.replace(/\/$/, '')\<close>: one slash is removed, and only at the very end.\<close>

definition strip_trailing_slash :: "string \<Rightarrow> string" where
  "strip_trailing_slash s = (if s \<noteq> [] \<and> last s = CHR ''/'' then butlast s else s)"

text \<open>A value inside a template literal: \<^verbatim>\<open>undefined\<close> prints as the word itself.\<close>

definition template :: "string option \<Rightarrow> string" where
  "template v = (case v of None \<Rightarrow> ''undefined'' | Some t \<Rightarrow> t)"

text \<open>\<^verbatim>\<open>!v\<close> for an optional string: true for \<^verbatim>\<open>undefined\<close> and for the empty string.\<close>

definition falsy :: "string option \<Rightarrow> bool" where
  "falsy v = (case v of None \<Rightarrow> True | Some t \<Rightarrow> t = [])"

definition do_fetch ::
  "('w, 'j) runtime \<Rightarrow> request \<Rightarrow> 'w sys \<Rightarrow> (string + response) \<times> 'w sys" where
  "do_fetch rt req s =
     (case fetch rt req (world s) of
        (r, w') \<Rightarrow> (r, s\<lparr>world := w', trace := trace s @ [Fetched req]\<rparr>))"

definition api_request :: "QuestradeClient \<Rightarrow> string \<Rightarrow> string \<Rightarrow> request" where
  "api_request c endpoint meth =
     \<lparr>url = strip_trailing_slash (apiServer c) @ endpoint,
      http_method = meth,
      headers = [(''Authorization'', ''Bearer '' @ template (accessToken c))]\<rparr>"

definition doApiRequest ::
  "('w, 'j) runtime \<Rightarrow> string \<Rightarrow> string \<Rightarrow> 'w sys \<Rightarrow> (error + 'j) \<times> 'w sys" where
  "doApiRequest rt endpoint meth s =
     (let req = api_request (client s) endpoint meth in
      case do_fetch rt req s of
        (Inl reason, s') \<Rightarrow> (Inl (TransportError reason), s')
      | (Inr res, s') \<Rightarrow>
          if \<not> ok res then
            (Inl (QuestradeApiError (''Failed to '' @ meth @ '' '' @ url req)
                    (status res) (body_text res)), s')
          else
            (case json_any rt (body_text res) of
               None \<Rightarrow> (Inl (TransportError ''invalid-json''), s')
             | Some j \<Rightarrow> (Inr j, s')))"

definition refresh_request :: "QuestradeClient \<Rightarrow> request" where
  "refresh_request c =
     \<lparr>url = AUTH_URL @ ''?grant_type=refresh_token&refresh_token='' @ refreshToken c,
      http_method = ''POST'',
      headers = []\<rparr>"

definition updateTokens ::
  "('w, 'j) runtime \<Rightarrow> 'w sys \<Rightarrow> (error + unit) \<times> 'w sys" where
  "updateTokens rt s =
     (case do_fetch rt (refresh_request (client s)) s of
        (Inl reason, s') \<Rightarrow> (Inl (TransportError reason), s')
      | (Inr res, s') \<Rightarrow>
          if \<not> ok res then
            (if status res = CODE_BAD_REQUEST then
               (Inl (QuestradeApiError ''Invalid refresh token'' (status res) ''''), s')
             else
               (Inl (QuestradeApiError ''Failed to refresh tokens''
                       (status res) (body_text res)), s'))
          else
            (case json_tokens rt (body_text res) of
               None \<Rightarrow> (Inl (TransportError ''invalid-json''), s')
             | Some b \<Rightarrow>
                 let c' = (client s')
                       \<lparr>accessToken := access_token b,
                        refreshToken := refresh_token b,
                        apiServer := api_server b,
                        expirationTime :=
                          getCurrentTimeSeconds rt (world s') + expires_in b\<rparr>
                 in (Inr (), s'\<lparr>client := c', trace := trace s' @ [Emitted ''refresh'' c']\<rparr>)))"

definition tokensNeedUpdating :: "('w, 'j) runtime \<Rightarrow> 'w sys \<Rightarrow> bool" where
  "tokensNeedUpdating rt s =
     (if falsy (accessToken (client s)) then True
      else getCurrentTimeSeconds rt (world s) \<ge> expirationTime (client s) - 20)"

definition getAccounts :: "('w, 'j) runtime \<Rightarrow> 'w sys \<Rightarrow> (error + 'j) \<times> 'w sys" where
  "getAccounts rt s =
     (if tokensNeedUpdating rt s then
        (case updateTokens rt s of
           (Inl e, s') \<Rightarrow> (Inl e, s')
         | (Inr u, s') \<Rightarrow> doApiRequest rt ''/v1/accounts'' ''GET'' s')
      else doApiRequest rt ''/v1/accounts'' ''GET'' s)"

definition getAccountBalances ::
  "('w, 'j) runtime \<Rightarrow> string \<Rightarrow> 'w sys \<Rightarrow> (error + 'j) \<times> 'w sys" where
  "getAccountBalances rt accountNumber s =
     (if tokensNeedUpdating rt s then
        (case updateTokens rt s of
           (Inl e, s') \<Rightarrow> (Inl e, s')
         | (Inr u, s') \<Rightarrow>
             doApiRequest rt (''/v1/accounts/'' @ accountNumber @ ''/balances'') ''GET'' s')
      else doApiRequest rt (''/v1/accounts/'' @ accountNumber @ ''/balances'') ''GET'' s)"

definition getRefreshToken :: "'w sys \<Rightarrow> string" where
  "getRefreshToken s = refreshToken (client s)"

definition getAccessToken :: "'w sys \<Rightarrow> string option" where
  "getAccessToken s = accessToken (client s)"

definition getAccessTokenExpirationTime :: "'w sys \<Rightarrow> int" where
  "getAccessTokenExpirationTime s = expirationTime (client s)"

section \<open>Sequences of operations\<close>

text \<open>
  The public methods of the class, and a step of the outside world between two calls
  (time passing, the servers changing their mind). A reachable state is what \<open>run\<close>
  gives from \<open>init\<close>. Calls run one after the other: a call that starts while another
  one awaits its response is outside the model.
\<close>

datatype operation =
  GetAccounts
| GetAccountBalances string
| GetRefreshToken
| GetAccessToken
| GetAccessTokenExpirationTime

datatype 'w step = Call operation | Env 'w

fun perform :: "('w, 'j) runtime \<Rightarrow> 'w step \<Rightarrow> 'w sys \<Rightarrow> 'w sys" where
  "perform rt (Call GetAccounts) s = snd (getAccounts rt s)"
| "perform rt (Call (GetAccountBalances n)) s = snd (getAccountBalances rt n s)"
| "perform rt (Call GetRefreshToken) s = s"
| "perform rt (Call GetAccessToken) s = s"
| "perform rt (Call GetAccessTokenExpirationTime) s = s"
| "perform rt (Env w) s = s\<lparr>world := w\<rparr>"

fun run :: "('w, 'j) runtime \<Rightarrow> 'w step list \<Rightarrow> 'w sys \<Rightarrow> 'w sys" where
  "run rt [] s = s"
| "run rt (st # sts) s = run rt sts (perform rt st s)"

text \<open>The states that \<open>run\<close> passes through, from the first to the one it returns.\<close>

fun states :: "('w, 'j) runtime \<Rightarrow> 'w step list \<Rightarrow> 'w sys \<Rightarrow> 'w sys list" where
  "states rt [] s = [s]"
| "states rt (st # sts) s = s # states rt sts (perform rt st s)"

text \<open>The requests of a trace, and how many of them are token refreshes.\<close>

definition fetched :: "event list \<Rightarrow> request list" where
  "fetched tr = concat (map (\<lambda>e. case e of Fetched r \<Rightarrow> [r] | Emitted n c \<Rightarrow> []) tr)"

definition refresh_calls :: "event list \<Rightarrow> nat" where
  "refresh_calls tr =
     length (filter (\<lambda>r. http_method r = ''POST'' \<and> prefix AUTH_URL (url r)) (fetched tr))"

section \<open>A scripted runtime\<close>

text \<open>
  A runtime for concrete runs, in the manner of a test double: every POST is answered
  with \<open>auth\<close>, every other request with \<open>data\<close>; a request takes 1500 ms; the world is
  the clock in milliseconds; a token body decodes to \<open>toks\<close> and a data body to itself.
\<close>

definition mock ::
  "response \<Rightarrow> response \<Rightarrow> QuestradeTokenRefreshResponse \<Rightarrow> (int, string) runtime" where
  "mock auth data toks =
     \<lparr>fetch = (\<lambda>req t. (Inr (if http_method req = ''POST'' then auth else data), t + 1500)),
      Date_now = (\<lambda>t. t),
      json_tokens = (\<lambda>b. Some toks),
      json_any = Some\<rparr>"

definition tokens1 :: QuestradeTokenRefreshResponse where
  "tokens1 = \<lparr>access_token = Some ''A1'', refresh_token = ''R1'',
              api_server = ''https://srv1/'', expires_in = 1800\<rparr>"

definition tokens_empty :: QuestradeTokenRefreshResponse where
  "tokens_empty = \<lparr>access_token = Some [], refresh_token = ''R1'',
                   api_server = ''https://srv1/'', expires_in = 1800\<rparr>"

text \<open>A success body that has no \<^verbatim>\<open>access_token\<close>.\<close>

definition tokens_absent :: QuestradeTokenRefreshResponse where
  "tokens_absent = \<lparr>access_token = None, refresh_token = ''R1'',
                    api_server = ''https://srv1/'', expires_in = 1800\<rparr>"

definition resp :: "int \<Rightarrow> string \<Rightarrow> response" where
  "resp st b = \<lparr>status = st, body_text = b\<rparr>"

text \<open>A client that holds the token \<open>A1\<close> until second 5000, at second 1000.\<close>

definition fresh_sys :: "int sys" where
  "fresh_sys =
     \<lparr>client = \<lparr>refreshToken = ''R1'', accessToken = Some ''A1'', expirationTime = 5000,
                apiServer = ''https://srv1/''\<rparr>,
      world = 1000000, trace = []\<rparr>"

text \<open>
  \<open>refreshed_from rt s c\<close>: in state \<open>s\<close> the token endpoint answers the refresh request
  with a success status and a token body, and \<open>c\<close> is the client that the four
  assignments of \<open>updateTokens\<close> build from that body.
\<close>

definition refreshed_from ::
  "('w, 'j) runtime \<Rightarrow> 'w sys \<Rightarrow> QuestradeClient \<Rightarrow> bool" where
  "refreshed_from rt s c =
     (case fetch rt (refresh_request (client s)) (world s) of
        (Inl reason, w') \<Rightarrow> False
      | (Inr res, w') \<Rightarrow>
          ok res \<and>
          (case json_tokens rt (body_text res) of
             None \<Rightarrow> False
           | Some b \<Rightarrow>
               c = \<lparr>refreshToken = refresh_token b, accessToken = access_token b,
                    expirationTime = getCurrentTimeSeconds rt w' + expires_in b,
                    apiServer = api_server b\<rparr>))"

text \<open>The same state, with the access token undefined.\<close>

definition without_token :: "'w sys \<Rightarrow> 'w sys" where
  "without_token s = s\<lparr>client := (client s)\<lparr>accessToken := None\<rparr>\<rparr>"

text \<open>A client whose access token is the empty string, until second 5000, at second 1000.\<close>

definition empty_token_sys :: "int sys" where
  "empty_token_sys =
     \<lparr>client = \<lparr>refreshToken = ''R1'', accessToken = Some [], expirationTime = 5000,
                apiServer = ''https://srv1/''\<rparr>,
      world = 1000000, trace = []\<rparr>"

section \<open>Basic facts\<close>

lemma do_fetch_eq:
  "fetch rt req (world s) = (r, w') \<Longrightarrow>
   do_fetch rt req s = (r, s\<lparr>world := w', trace := trace s @ [Fetched req]\<rparr>)"
  by (simp add: do_fetch_def)

lemma updateTokens_ok:
  assumes "fetch rt (refresh_request (client s)) (world s) = (Inr res, w')"
    and "ok res" and "json_tokens rt (body_text res) = Some b"
  shows "updateTokens rt s =
    (Inr (),
     \<lparr>client = \<lparr>refreshToken = refresh_token b, accessToken = access_token b,
                expirationTime = getCurrentTimeSeconds rt w' + expires_in b,
                apiServer = api_server b\<rparr>,
      world = w',
      trace = trace s @ [Fetched (refresh_request (client s)),
                Emitted ''refresh''
                  \<lparr>refreshToken = refresh_token b, accessToken = access_token b,
                   expirationTime = getCurrentTimeSeconds rt w' + expires_in b,
                   apiServer = api_server b\<rparr>]\<rparr>)"
  using assms by (simp add: updateTokens_def do_fetch_eq Let_def)

lemma updateTokens_not_ok:
  assumes "fetch rt (refresh_request (client s)) (world s) = (Inr res, w')"
    and "\<not> ok res"
  shows "updateTokens rt s =
    (Inl (if status res = CODE_BAD_REQUEST
          then QuestradeApiError ''Invalid refresh token'' (status res) []
          else QuestradeApiError ''Failed to refresh tokens'' (status res) (body_text res)),
     s\<lparr>world := w', trace := trace s @ [Fetched (refresh_request (client s))]\<rparr>)"
  using assms by (simp add: updateTokens_def do_fetch_eq)

lemma updateTokens_Inl_state:
  "fst (updateTokens rt s) = Inl e \<Longrightarrow>
   snd (updateTokens rt s) =
     s\<lparr>world := snd (fetch rt (refresh_request (client s)) (world s)),
       trace := trace s @ [Fetched (refresh_request (client s))]\<rparr>"
  by (auto simp: updateTokens_def do_fetch_def Let_def
           split: prod.splits sum.splits if_splits option.splits)

lemma updateTokens_cases:
  obtains (fail) e where "updateTokens rt s =
      (Inl e, s\<lparr>world := snd (fetch rt (refresh_request (client s)) (world s)),
                trace := trace s @ [Fetched (refresh_request (client s))]\<rparr>)"
  | (success) res w' b where
      "fetch rt (refresh_request (client s)) (world s) = (Inr res, w')"
      "ok res" "json_tokens rt (body_text res) = Some b"
proof (cases "fst (updateTokens rt s)")
  case (Inl e)
  then show ?thesis
    using updateTokens_Inl_state [of rt s e] fail [of e]
    by (metis prod.collapse)
next
  case (Inr u)
  then show ?thesis
    using success
    by (auto simp: updateTokens_def do_fetch_def Let_def
             split: prod.splits sum.splits if_splits option.splits)
qed

lemma doApiRequest_client: "client (snd (doApiRequest rt ep m s)) = client s"
  by (auto simp: doApiRequest_def do_fetch_def Let_def
           split: prod.splits sum.splits option.splits)

lemma doApiRequest_trace:
  "trace (snd (doApiRequest rt ep m s)) = trace s @ [Fetched (api_request (client s) ep m)]"
  by (auto simp: doApiRequest_def do_fetch_def Let_def
           split: prod.splits sum.splits option.splits)

lemma getAccounts_fresh:
  "\<not> tokensNeedUpdating rt s \<Longrightarrow>
   getAccounts rt s = doApiRequest rt ''/v1/accounts'' ''GET'' s"
  by (simp add: getAccounts_def)

lemma getAccounts_stale_fail:
  "tokensNeedUpdating rt s \<Longrightarrow> fst (updateTokens rt s) = Inl e \<Longrightarrow>
   getAccounts rt s = (Inl e, snd (updateTokens rt s))"
  by (cases "updateTokens rt s") (auto simp: getAccounts_def)

lemma getAccounts_stale_ok:
  "tokensNeedUpdating rt s \<Longrightarrow> fst (updateTokens rt s) = Inr u \<Longrightarrow>
   getAccounts rt s = doApiRequest rt ''/v1/accounts'' ''GET'' (snd (updateTokens rt s))"
  by (cases "updateTokens rt s") (auto simp: getAccounts_def)

lemma getAccountBalances_fresh:
  "\<not> tokensNeedUpdating rt s \<Longrightarrow>
   getAccountBalances rt n s =
     doApiRequest rt (''/v1/accounts/'' @ n @ ''/balances'') ''GET'' s"
  by (simp add: getAccountBalances_def)

lemma getAccountBalances_stale_fail:
  "tokensNeedUpdating rt s \<Longrightarrow> fst (updateTokens rt s) = Inl e \<Longrightarrow>
   getAccountBalances rt n s = (Inl e, snd (updateTokens rt s))"
  by (cases "updateTokens rt s") (auto simp: getAccountBalances_def)

lemma getAccountBalances_stale_ok:
  "tokensNeedUpdating rt s \<Longrightarrow> fst (updateTokens rt s) = Inr u \<Longrightarrow>
   getAccountBalances rt n s =
     doApiRequest rt (''/v1/accounts/'' @ n @ ''/balances'') ''GET'' (snd (updateTokens rt s))"
  by (cases "updateTokens rt s") (auto simp: getAccountBalances_def)

lemma fetched_append [simp]: "fetched (xs @ ys) = fetched xs @ fetched ys"
  by (simp add: fetched_def)

lemma fetched_Fetched [simp]: "fetched (Fetched r # tr) = r # fetched tr"
  by (simp add: fetched_def)

lemma fetched_Emitted [simp]: "fetched (Emitted n c # tr) = fetched tr"
  by (simp add: fetched_def)

lemma fetched_Nil [simp]: "fetched [] = []"
  by (simp add: fetched_def)

lemma updateTokens_fetched:
  "fetched (trace (snd (updateTokens rt s))) = fetched (trace s) @ [refresh_request (client s)]"
  by (auto simp: updateTokens_def do_fetch_def Let_def
           split: prod.splits sum.splits option.splits)

lemma is_refresh_refresh_request:
  "http_method (refresh_request c) = ''POST'' \<and> prefix AUTH_URL (url (refresh_request c))"
  by (simp add: refresh_request_def)

lemma http_method_api_request: "http_method (api_request c ep m) = m"
  by (simp add: api_request_def)

lemma refresh_calls_refresh:
  "fetched tr' = fetched tr @ [refresh_request c] \<Longrightarrow>
   refresh_calls tr' = Suc (refresh_calls tr)"
  by (simp add: refresh_calls_def is_refresh_refresh_request)

lemma refresh_calls_get:
  "fetched tr' = fetched tr @ [api_request c ep ''GET''] \<Longrightarrow>
   refresh_calls tr' = refresh_calls tr"
  by (simp add: refresh_calls_def http_method_api_request)

lemma refresh_calls_refresh_get:
  "fetched tr' = fetched tr @ [refresh_request c, api_request c' ep ''GET''] \<Longrightarrow>
   refresh_calls tr' = Suc (refresh_calls tr)"
  by (simp add: refresh_calls_def http_method_api_request is_refresh_refresh_request)

lemma stale_ok_fetched:
  "fetched (trace (snd (doApiRequest rt ep m (snd (updateTokens rt s))))) =
   fetched (trace s) @
     [refresh_request (client s), api_request (client (snd (updateTokens rt s))) ep m]"
  by (simp add: doApiRequest_trace updateTokens_fetched)

lemma fresh_fetched:
  "fetched (trace (snd (doApiRequest rt ep m s))) =
   fetched (trace s) @ [api_request (client s) ep m]"
  by (simp add: doApiRequest_trace)

lemma refresh_calls_Nil [simp]: "refresh_calls [] = 0"
  by (simp add: refresh_calls_def)

lemma strip_trailing_slash_snoc: "strip_trailing_slash (b @ ''/'') = b"
  by (simp add: strip_trailing_slash_def)

lemma strip_trailing_slash_other: "\<not> suffix ''/'' a \<Longrightarrow> strip_trailing_slash a = a"
  by (cases a rule: rev_cases) (auto simp: strip_trailing_slash_def suffix_def)

lemma updateTokens_client:
  "client (snd (updateTokens rt s)) = client s \<or>
   refreshed_from rt s (client (snd (updateTokens rt s)))"
proof (cases rt s rule: updateTokens_cases)
  case (fail e)
  then show ?thesis by simp
next
  case (success res w' b)
  then show ?thesis
    by (simp add: updateTokens_ok [OF success] refreshed_from_def)
qed

lemma getAccounts_client:
  "client (snd (getAccounts rt s)) = client s \<or>
   (tokensNeedUpdating rt s \<and> refreshed_from rt s (client (snd (getAccounts rt s))))"
  using updateTokens_client [of rt s]
  by (cases "updateTokens rt s")
     (auto simp: getAccounts_def doApiRequest_client split: sum.splits)

lemma getAccountBalances_client:
  "client (snd (getAccountBalances rt n s)) = client s \<or>
   (tokensNeedUpdating rt s \<and>
    refreshed_from rt s (client (snd (getAccountBalances rt n s))))"
  using updateTokens_client [of rt s]
  by (cases "updateTokens rt s")
     (auto simp: getAccountBalances_def doApiRequest_client split: sum.splits)

lemma perform_client:
  "client (perform rt st s) = client s \<or>
   (tokensNeedUpdating rt s \<and> refreshed_from rt s (client (perform rt st s)))"
proof (cases st)
  case (Call op)
  then show ?thesis
    using getAccounts_client [of rt s] getAccountBalances_client [of rt _ s]
    by (cases op) auto
next
  case (Env w)
  then show ?thesis by simp
qed

lemma run_client:
  "client (run rt sts s) = client s \<or>
   (\<exists>s0 \<in> set (states rt sts s).
      tokensNeedUpdating rt s0 \<and> refreshed_from rt s0 (client (run rt sts s)))"
proof (induction sts arbitrary: s)
  case Nil
  then show ?case by simp
next
  case (Cons st sts)
  let ?s' = "perform rt st s"
  from Cons.IH [of ?s'] consider
    (same) "client (run rt sts ?s') = client ?s'"
  | (later) "\<exists>s0 \<in> set (states rt sts ?s').
      tokensNeedUpdating rt s0 \<and> refreshed_from rt s0 (client (run rt sts ?s'))"
    by blast
  then show ?case
  proof cases
    case same
    with perform_client [of rt st s] show ?thesis by auto
  next
    case later
    then show ?thesis by auto
  qed
qed

lemma constructor_no_token: "accessToken (constructor rtok) = None"
  by (simp add: constructor_def)

lemma updateTokens_without_token:
  "updateTokens rt (without_token s) =
     (case updateTokens rt s of
        (Inl e, s') \<Rightarrow> (Inl e, without_token s')
      | (Inr u, s') \<Rightarrow> (Inr u, s'))"
  by (auto simp: updateTokens_def do_fetch_def Let_def without_token_def refresh_request_def
           split: prod.splits sum.splits option.splits)

lemma empty_token_stale:
  "accessToken (client s) = Some [] \<Longrightarrow> tokensNeedUpdating rt s"
  by (simp add: tokensNeedUpdating_def falsy_def)

lemma without_token_stale: "tokensNeedUpdating rt (without_token s)"
  by (simp add: tokensNeedUpdating_def falsy_def without_token_def)

lemma fetched_without_token: "fetched (trace (without_token s)) = fetched (trace s)"
  by (simp add: without_token_def)

section \<open>Token refresh\<close>

text \<open>
  Claim C1. When the token endpoint answers with a success status and a token body,
  \<open>updateTokens\<close> succeeds; the client then holds the access token (none, if the body
  has none), the refresh token and the API server of the body, its expiration time is
  the current time in seconds, read once the response is there, plus \<open>expires_in\<close>; and
  the trace has grown by the request and by exactly one \<open>refresh\<close> event, emitted on
  the client as updated.
\<close>

theorem updateTokens_success_replaces_all:
  assumes "fetch rt (refresh_request (client s)) (world s) = (Inr res, w')"
    and "ok res"
    and "json_tokens rt (body_text res) = Some b"
  shows "fst (updateTokens rt s) = Inr () \<and>
         accessToken (client (snd (updateTokens rt s))) = access_token b \<and>
         refreshToken (client (snd (updateTokens rt s))) = refresh_token b \<and>
         apiServer (client (snd (updateTokens rt s))) = api_server b \<and>
         expirationTime (client (snd (updateTokens rt s))) =
           getCurrentTimeSeconds rt w' + expires_in b \<and>
         trace (snd (updateTokens rt s)) =
           trace s @ [Fetched (refresh_request (client s)),
                      Emitted ''refresh'' (client (snd (updateTokens rt s)))]"
  by (simp add: updateTokens_ok [OF assms])

text \<open>
  A run of it: a client built on \<open>R0\<close> at 5.0 s, a response that arrives at 6.5 s.
\<close>

theorem updateTokens_success_replaces_all_witness:
  "ok (resp 200 ''{}'') \<and>
   client (snd (updateTokens (mock (resp 200 ''{}'') (resp 200 ''[]'') tokens1)
                  (init ''R0'' 5000))) =
     \<lparr>refreshToken = ''R1'', accessToken = Some ''A1'', expirationTime = 1806,
      apiServer = ''https://srv1/''\<rparr> \<and>
   trace (snd (updateTokens (mock (resp 200 ''{}'') (resp 200 ''[]'') tokens1)
                 (init ''R0'' 5000))) =
     [Fetched (refresh_request (constructor ''R0'')),
      Emitted ''refresh''
        \<lparr>refreshToken = ''R1'', accessToken = Some ''A1'', expirationTime = 1806,
         apiServer = ''https://srv1/''\<rparr>]"
  using updateTokens_success_replaces_all
    [of "mock (resp 200 ''{}'') (resp 200 ''[]'') tokens1" "init ''R0'' 5000"
        "resp 200 ''{}''" 6500 tokens1]
  by (simp add: mock_def resp_def ok_def init_def tokens1_def getCurrentTimeSeconds_def
        refresh_request_def)

section \<open>Freshness\<close>

text \<open>
  Claim C2, as amended. \<open>tokensNeedUpdating\<close> is true exactly when the access token is
  undefined or the empty string, or the current time in seconds has reached the
  expiration time minus 20. It returns a truth value and no state: it changes nothing.
\<close>

theorem tokensNeedUpdating_iff:
  "tokensNeedUpdating rt s \<longleftrightarrow>
     accessToken (client s) = None \<or> accessToken (client s) = Some [] \<or>
     getCurrentTimeSeconds rt (world s) \<ge> expirationTime (client s) - 20"
  by (auto simp: tokensNeedUpdating_def falsy_def split: option.splits)

text \<open>
  Claim C2 as stated fails: "with expiration time \<open>T\<close> it is true iff \<open>now \<ge> T - 20\<close>".
  A refresh whose body carries the access token \<^verbatim>\<open>""\<close> leaves a client that expires at
  second 1806; at second 6 it needs a refresh all the same.
\<close>

theorem tokensNeedUpdating_not_only_time:
  "client (snd (updateTokens (mock (resp 200 ''{}'') (resp 200 ''[]'') tokens_empty)
                  (init ''R0'' 5000))) =
     \<lparr>refreshToken = ''R1'', accessToken = Some [], expirationTime = 1806,
      apiServer = ''https://srv1/''\<rparr> \<and>
   tokensNeedUpdating (mock (resp 200 ''{}'') (resp 200 ''[]'') tokens_empty)
     (snd (updateTokens (mock (resp 200 ''{}'') (resp 200 ''[]'') tokens_empty)
             (init ''R0'' 5000))) \<and>
   \<not> getCurrentTimeSeconds (mock (resp 200 ''{}'') (resp 200 ''[]'') tokens_empty)
        (world (snd (updateTokens (mock (resp 200 ''{}'') (resp 200 ''[]'') tokens_empty)
             (init ''R0'' 5000)))) \<ge> 1806 - 20"
  by (simp add: updateTokens_def do_fetch_def refresh_request_def mock_def resp_def ok_def
        init_def constructor_def tokens_empty_def getCurrentTimeSeconds_def
        tokensNeedUpdating_def falsy_def Let_def)

section \<open>Failed refresh\<close>

text \<open>
  Claim C3. A response with a non-success status makes \<open>updateTokens\<close> fail, and whenever
  \<open>updateTokens\<close> fails the client is as it was before (access token, expiration time,
  refresh token and API server); the trace has the request and no event.
\<close>

theorem updateTokens_failure_keeps_client:
  "(fetch rt (refresh_request (client s)) (world s) = (Inr res, w') \<and> \<not> ok res
      \<longrightarrow> (\<exists>e. fst (updateTokens rt s) = Inl e)) \<and>
   (fst (updateTokens rt s) = Inl e
      \<longrightarrow> client (snd (updateTokens rt s)) = client s \<and>
          trace (snd (updateTokens rt s)) = trace s @ [Fetched (refresh_request (client s))])"
proof (intro conjI impI)
  assume "fetch rt (refresh_request (client s)) (world s) = (Inr res, w') \<and> \<not> ok res"
  then show "\<exists>e. fst (updateTokens rt s) = Inl e"
    by (simp add: updateTokens_not_ok)
next
  assume f: "fst (updateTokens rt s) = Inl e"
  show "client (snd (updateTokens rt s)) = client s"
    by (simp add: updateTokens_Inl_state [OF f])
  show "trace (snd (updateTokens rt s)) = trace s @ [Fetched (refresh_request (client s))]"
    by (simp add: updateTokens_Inl_state [OF f])
qed

text \<open>A run of it: status 400 for a client that holds tokens.\<close>

theorem updateTokens_failure_keeps_client_witness:
  "\<not> ok (resp 400 ''Bad Request'') \<and>
   fst (updateTokens (mock (resp 400 ''Bad Request'') (resp 200 ''[]'') tokens1) fresh_sys) =
     Inl (QuestradeApiError ''Invalid refresh token'' 400 []) \<and>
   client (snd (updateTokens (mock (resp 400 ''Bad Request'') (resp 200 ''[]'') tokens1)
                  fresh_sys)) =
     \<lparr>refreshToken = ''R1'', accessToken = Some ''A1'', expirationTime = 5000,
      apiServer = ''https://srv1/''\<rparr>"
  using updateTokens_failure_keeps_client
    [of "mock (resp 400 ''Bad Request'') (resp 200 ''[]'') tokens1" fresh_sys
        "resp 400 ''Bad Request''" 1001500
        "QuestradeApiError ''Invalid refresh token'' 400 []"]
  by (simp add: updateTokens_def do_fetch_def refresh_request_def mock_def resp_def ok_def
        fresh_sys_def CODE_BAD_REQUEST_def)

section \<open>Errors of a refresh\<close>

text \<open>
  Claim C4. A response with a non-success status makes \<open>updateTokens\<close> fail with a
  \<open>QuestradeApiError\<close>: for status 400 its message is \<open>Invalid refresh token\<close>; for any
  other status the message is the generic \<open>Failed to refresh tokens\<close>, and the error
  carries the status and the body of the response.
\<close>

theorem updateTokens_error_message:
  assumes "fetch rt (refresh_request (client s)) (world s) = (Inr res, w')"
    and "\<not> ok res"
  shows "(status res = 400 \<longrightarrow>
            fst (updateTokens rt s) = Inl (QuestradeApiError ''Invalid refresh token'' 400 [])) \<and>
         (status res \<noteq> 400 \<longrightarrow>
            fst (updateTokens rt s) =
              Inl (QuestradeApiError ''Failed to refresh tokens'' (status res) (body_text res)))"
  by (simp add: updateTokens_not_ok [OF assms] CODE_BAD_REQUEST_def)

text \<open>A run of it: status 400, and status 503.\<close>

theorem updateTokens_error_message_witness:
  "\<not> ok (resp 400 ''Bad Request'') \<and> \<not> ok (resp 503 ''try later'') \<and>
   fst (updateTokens (mock (resp 400 ''Bad Request'') (resp 200 ''[]'') tokens1)
          (init ''R0'' 5000)) =
     Inl (QuestradeApiError ''Invalid refresh token'' 400 []) \<and>
   fst (updateTokens (mock (resp 503 ''try later'') (resp 200 ''[]'') tokens1)
          (init ''R0'' 5000)) =
     Inl (QuestradeApiError ''Failed to refresh tokens'' 503 ''try later'')"
  using updateTokens_error_message
      [of "mock (resp 400 ''Bad Request'') (resp 200 ''[]'') tokens1" "init ''R0'' 5000"
          "resp 400 ''Bad Request''" 6500]
    updateTokens_error_message
      [of "mock (resp 503 ''try later'') (resp 200 ''[]'') tokens1" "init ''R0'' 5000"
          "resp 503 ''try later''" 6500]
  by (simp add: mock_def resp_def ok_def init_def refresh_request_def)

text \<open>
  Claim C8, as amended. The error of a failed refresh has the status of the response as
  its code; its body is the body of the response for every non-success status but 400,
  and empty for status 400.
\<close>

theorem updateTokens_error_body:
  assumes "fetch rt (refresh_request (client s)) (world s) = (Inr res, w')"
    and "\<not> ok res"
  shows "\<exists>msg. fst (updateTokens rt s) =
           Inl (QuestradeApiError msg (status res)
                  (if status res = 400 then [] else body_text res))"
  by (simp add: updateTokens_not_ok [OF assms] CODE_BAD_REQUEST_def)

text \<open>A run of it: status 500 with the body \<open>server error\<close>.\<close>

theorem updateTokens_error_body_witness:
  "\<not> ok (resp 500 ''server error'') \<and>
   (\<exists>msg. fst (updateTokens (mock (resp 500 ''server error'') (resp 200 ''[]'') tokens1)
                 fresh_sys) =
           Inl (QuestradeApiError msg 500 ''server error''))"
  using updateTokens_error_body
      [of "mock (resp 500 ''server error'') (resp 200 ''[]'') tokens1" fresh_sys
          "resp 500 ''server error''" 1001500]
  by (simp add: mock_def resp_def ok_def fresh_sys_def refresh_request_def)

text \<open>
  Claim C8 as stated fails at status 400: the response has the body \<open>Bad Request\<close>, the
  error has the empty one.
\<close>

theorem updateTokens_400_drops_body:
  "\<not> ok (resp 400 ''Bad Request'') \<and>
   fetch (mock (resp 400 ''Bad Request'') (resp 200 ''[]'') tokens1)
     (refresh_request (client (init ''R0'' 5000))) (world (init ''R0'' 5000)) =
     (Inr (resp 400 ''Bad Request''), 6500) \<and>
   fst (updateTokens (mock (resp 400 ''Bad Request'') (resp 200 ''[]'') tokens1)
          (init ''R0'' 5000)) =
     Inl (QuestradeApiError ''Invalid refresh token'' 400 []) \<and>
   body_text (resp 400 ''Bad Request'') \<noteq> []"
  by (simp add: updateTokens_def do_fetch_def mock_def resp_def ok_def init_def
        refresh_request_def CODE_BAD_REQUEST_def)

section \<open>Data requests\<close>

text \<open>
  Claim C6. When the response to a data request has a non-success status,
  \<open>doApiRequest\<close> fails with a \<open>QuestradeApiError\<close> whose message is \<open>Failed to\<close>, the
  method and the URL of the request, whose code is the status and whose body is the body
  of the response; when the status is a success and the body decodes as JSON, it returns
  the decoded value.
\<close>

theorem doApiRequest_result:
  assumes "fetch rt (api_request (client s) endpoint meth) (world s) = (Inr res, w')"
  shows "(\<not> ok res \<longrightarrow>
            fst (doApiRequest rt endpoint meth s) =
              Inl (QuestradeApiError
                     (''Failed to '' @ meth @ '' '' @
                        url (api_request (client s) endpoint meth))
                     (status res) (body_text res))) \<and>
         (ok res \<and> json_any rt (body_text res) = Some j \<longrightarrow>
            fst (doApiRequest rt endpoint meth s) = Inr j)"
  using assms by (simp add: doApiRequest_def do_fetch_eq Let_def)

text \<open>A run of it: status 500 with the body \<open>server error\<close>, and status 200.\<close>

theorem doApiRequest_result_witness:
  "\<not> ok (resp 500 ''server error'') \<and> ok (resp 200 ''{}'') \<and>
   fst (doApiRequest (mock (resp 200 ''{}'') (resp 500 ''server error'') tokens1)
          ''/v1/accounts'' ''GET'' fresh_sys) =
     Inl (QuestradeApiError ''Failed to GET https://srv1/v1/accounts'' 500 ''server error'') \<and>
   fst (doApiRequest (mock (resp 200 ''{}'') (resp 200 ''{}'') tokens1)
          ''/v1/accounts'' ''GET'' fresh_sys) = Inr ''{}''"
  using doApiRequest_result
      [of "mock (resp 200 ''{}'') (resp 500 ''server error'') tokens1" fresh_sys
          "''/v1/accounts''" "''GET''" "resp 500 ''server error''" 1001500 "''{}''"]
    doApiRequest_result
      [of "mock (resp 200 ''{}'') (resp 200 ''{}'') tokens1" fresh_sys
          "''/v1/accounts''" "''GET''" "resp 200 ''{}''" 1001500 "''{}''"]
  by (simp add: mock_def resp_def ok_def fresh_sys_def api_request_def
        strip_trailing_slash_def template_def)

section \<open>Refresh before a data request\<close>

text \<open>
  Claim C5. \<open>getAccounts\<close> and \<open>getAccountBalances\<close>, by the state they are called in:
  \<^item> no refresh needed: the only request is the data request, to \<open>/v1/accounts\<close> or
    \<open>/v1/accounts/n/balances\<close>, and no refresh request is made;
  \<^item> refresh needed and failing: the call fails with the error of the refresh, and the
    only request is the one refresh request;
  \<^item> refresh needed and succeeding: one refresh request, then the data request, built
    from the client as refreshed.
\<close>

theorem data_calls_refresh_at_most_once:
  "(\<not> tokensNeedUpdating rt s \<longrightarrow>
      fetched (trace (snd (getAccounts rt s))) =
        fetched (trace s) @ [api_request (client s) ''/v1/accounts'' ''GET''] \<and>
      refresh_calls (trace (snd (getAccounts rt s))) = refresh_calls (trace s) \<and>
      fetched (trace (snd (getAccountBalances rt n s))) =
        fetched (trace s) @
          [api_request (client s) (''/v1/accounts/'' @ n @ ''/balances'') ''GET''] \<and>
      refresh_calls (trace (snd (getAccountBalances rt n s))) = refresh_calls (trace s)) \<and>
   (tokensNeedUpdating rt s \<and> fst (updateTokens rt s) = Inl e \<longrightarrow>
      fst (getAccounts rt s) = Inl e \<and>
      fetched (trace (snd (getAccounts rt s))) =
        fetched (trace s) @ [refresh_request (client s)] \<and>
      refresh_calls (trace (snd (getAccounts rt s))) = refresh_calls (trace s) + 1 \<and>
      fst (getAccountBalances rt n s) = Inl e \<and>
      fetched (trace (snd (getAccountBalances rt n s))) =
        fetched (trace s) @ [refresh_request (client s)] \<and>
      refresh_calls (trace (snd (getAccountBalances rt n s))) = refresh_calls (trace s) + 1) \<and>
   (tokensNeedUpdating rt s \<and> fst (updateTokens rt s) = Inr () \<longrightarrow>
      fetched (trace (snd (getAccounts rt s))) =
        fetched (trace s) @
          [refresh_request (client s),
           api_request (client (snd (updateTokens rt s))) ''/v1/accounts'' ''GET''] \<and>
      refresh_calls (trace (snd (getAccounts rt s))) = refresh_calls (trace s) + 1 \<and>
      fetched (trace (snd (getAccountBalances rt n s))) =
        fetched (trace s) @
          [refresh_request (client s),
           api_request (client (snd (updateTokens rt s)))
             (''/v1/accounts/'' @ n @ ''/balances'') ''GET''] \<and>
      refresh_calls (trace (snd (getAccountBalances rt n s))) = refresh_calls (trace s) + 1)"
proof (intro conjI impI)
  assume fresh: "\<not> tokensNeedUpdating rt s"
  show a: "fetched (trace (snd (getAccounts rt s))) =
      fetched (trace s) @ [api_request (client s) ''/v1/accounts'' ''GET'']"
    by (simp only: getAccounts_fresh [OF fresh] fresh_fetched)
  show "refresh_calls (trace (snd (getAccounts rt s))) = refresh_calls (trace s)"
    by (rule refresh_calls_get [OF a])
  show b: "fetched (trace (snd (getAccountBalances rt n s))) =
      fetched (trace s) @
        [api_request (client s) (''/v1/accounts/'' @ n @ ''/balances'') ''GET'']"
    by (simp only: getAccountBalances_fresh [OF fresh] fresh_fetched)
  show "refresh_calls (trace (snd (getAccountBalances rt n s))) = refresh_calls (trace s)"
    by (rule refresh_calls_get [OF b])
next
  assume "tokensNeedUpdating rt s \<and> fst (updateTokens rt s) = Inl e"
  then have stale: "tokensNeedUpdating rt s" and f: "fst (updateTokens rt s) = Inl e"
    by simp_all
  show "fst (getAccounts rt s) = Inl e"
    by (simp add: getAccounts_stale_fail [OF stale f])
  show a: "fetched (trace (snd (getAccounts rt s))) =
      fetched (trace s) @ [refresh_request (client s)]"
    by (simp add: getAccounts_stale_fail [OF stale f] updateTokens_fetched)
  show "refresh_calls (trace (snd (getAccounts rt s))) = refresh_calls (trace s) + 1"
    using refresh_calls_refresh [OF a] by simp
  show "fst (getAccountBalances rt n s) = Inl e"
    by (simp add: getAccountBalances_stale_fail [OF stale f])
  show b: "fetched (trace (snd (getAccountBalances rt n s))) =
      fetched (trace s) @ [refresh_request (client s)]"
    by (simp add: getAccountBalances_stale_fail [OF stale f] updateTokens_fetched)
  show "refresh_calls (trace (snd (getAccountBalances rt n s))) = refresh_calls (trace s) + 1"
    using refresh_calls_refresh [OF b] by simp
next
  assume "tokensNeedUpdating rt s \<and> fst (updateTokens rt s) = Inr ()"
  then have stale: "tokensNeedUpdating rt s" and f: "fst (updateTokens rt s) = Inr ()"
    by simp_all
  show a: "fetched (trace (snd (getAccounts rt s))) =
      fetched (trace s) @
        [refresh_request (client s),
         api_request (client (snd (updateTokens rt s))) ''/v1/accounts'' ''GET'']"
    by (simp only: getAccounts_stale_ok [OF stale f] stale_ok_fetched)
  show "refresh_calls (trace (snd (getAccounts rt s))) = refresh_calls (trace s) + 1"
    using refresh_calls_refresh_get [OF a] by simp
  show b: "fetched (trace (snd (getAccountBalances rt n s))) =
      fetched (trace s) @
        [refresh_request (client s),
         api_request (client (snd (updateTokens rt s)))
           (''/v1/accounts/'' @ n @ ''/balances'') ''GET'']"
    by (simp only: getAccountBalances_stale_ok [OF stale f] stale_ok_fetched)
  show "refresh_calls (trace (snd (getAccountBalances rt n s))) = refresh_calls (trace s) + 1"
    using refresh_calls_refresh_get [OF b] by simp
qed

text \<open>
  Three runs of it: a client that holds a token, a new client whose refresh is answered
  with status 400, and a new client whose refresh succeeds.
\<close>

theorem data_calls_refresh_at_most_once_witness:
  "\<not> tokensNeedUpdating (mock (resp 200 ''{}'') (resp 200 ''[]'') tokens1) fresh_sys \<and>
   fetched (trace (snd (getAccounts (mock (resp 200 ''{}'') (resp 200 ''[]'') tokens1)
                          fresh_sys))) =
     [\<lparr>url = ''https://srv1/v1/accounts'', http_method = ''GET'',
       headers = [(''Authorization'', ''Bearer A1'')]\<rparr>] \<and>
   refresh_calls (trace (snd (getAccountBalances
       (mock (resp 200 ''{}'') (resp 200 ''[]'') tokens1) ''42'' fresh_sys))) = 0 \<and>
   tokensNeedUpdating (mock (resp 400 ''Bad Request'') (resp 200 ''[]'') tokens1)
     (init ''R0'' 5000) \<and>
   fst (getAccounts (mock (resp 400 ''Bad Request'') (resp 200 ''[]'') tokens1)
          (init ''R0'' 5000)) =
     Inl (QuestradeApiError ''Invalid refresh token'' 400 []) \<and>
   fetched (trace (snd (getAccounts (mock (resp 400 ''Bad Request'') (resp 200 ''[]'') tokens1)
                          (init ''R0'' 5000)))) =
     [refresh_request (constructor ''R0'')] \<and>
   refresh_calls (trace (snd (getAccountBalances
       (mock (resp 400 ''Bad Request'') (resp 200 ''[]'') tokens1) ''42''
       (init ''R0'' 5000)))) = 1 \<and>
   tokensNeedUpdating (mock (resp 200 ''{}'') (resp 200 ''[]'') tokens1) (init ''R0'' 5000) \<and>
   fetched (trace (snd (getAccountBalances (mock (resp 200 ''{}'') (resp 200 ''[]'') tokens1)
                          ''42'' (init ''R0'' 5000)))) =
     [refresh_request (constructor ''R0''),
      \<lparr>url = ''https://srv1/v1/accounts/42/balances'', http_method = ''GET'',
       headers = [(''Authorization'', ''Bearer A1'')]\<rparr>] \<and>
   refresh_calls (trace (snd (getAccounts (mock (resp 200 ''{}'') (resp 200 ''[]'') tokens1)
                                (init ''R0'' 5000)))) = 1"
  using data_calls_refresh_at_most_once
      [of "mock (resp 200 ''{}'') (resp 200 ''[]'') tokens1" fresh_sys "''42''"]
    data_calls_refresh_at_most_once
      [of "mock (resp 400 ''Bad Request'') (resp 200 ''[]'') tokens1" "init ''R0'' 5000"
          "''42''" "QuestradeApiError ''Invalid refresh token'' 400 []"]
    data_calls_refresh_at_most_once
      [of "mock (resp 200 ''{}'') (resp 200 ''[]'') tokens1" "init ''R0'' 5000" "''42''"]
  by (simp add: tokensNeedUpdating_def falsy_def getCurrentTimeSeconds_def
        updateTokens_def do_fetch_def Let_def CODE_BAD_REQUEST_def
        mock_def resp_def ok_def fresh_sys_def init_def constructor_def tokens1_def
        api_request_def refresh_request_def strip_trailing_slash_def template_def)

section \<open>The target of a data request\<close>

text \<open>
  Claim C7. \<open>doApiRequest\<close> hands one request to \<open>fetch\<close>, with the method given. Its
  URL is the API server of the client followed by the endpoint, where a server that ends
  with a slash loses that slash. With an access token \<open>tok\<close> its only header is
  \<open>Authorization: Bearer tok\<close>. In particular, for a client built on \<open>R0\<close> whose
  refresh is answered with access token \<open>A1\<close>, refresh token \<open>R1\<close> and API server
  \<^verbatim>\<open>https://srv1/\<close>, \<open>getAccounts\<close> makes the refresh request and then requests
  \<^verbatim>\<open>https://srv1/v1/accounts\<close> with \<open>Authorization: Bearer A1\<close>, and \<open>getRefreshToken\<close>
  gives \<open>R1\<close> afterwards.
\<close>

theorem doApiRequest_target:
  "trace (snd (doApiRequest rt endpoint meth s)) =
     trace s @ [Fetched (api_request (client s) endpoint meth)] \<and>
   http_method (api_request (client s) endpoint meth) = meth \<and>
   (apiServer (client s) = b @ ''/'' \<longrightarrow>
      url (api_request (client s) endpoint meth) = b @ endpoint) \<and>
   (\<not> suffix ''/'' (apiServer (client s)) \<longrightarrow>
      url (api_request (client s) endpoint meth) = apiServer (client s) @ endpoint) \<and>
   (accessToken (client s) = Some tok \<longrightarrow>
      headers (api_request (client s) endpoint meth) =
        [(''Authorization'', ''Bearer '' @ tok)]) \<and>
   (fetch rt (refresh_request (constructor ''R0'')) w = (Inr res, w') \<and> ok res \<and>
    json_tokens rt (body_text res) =
      Some \<lparr>access_token = Some ''A1'', refresh_token = ''R1'',
            api_server = ''https://srv1/'', expires_in = 1800\<rparr> \<longrightarrow>
      fetched (trace (snd (getAccounts rt (init ''R0'' w)))) =
        [refresh_request (constructor ''R0''),
         \<lparr>url = ''https://srv1/v1/accounts'', http_method = ''GET'',
          headers = [(''Authorization'', ''Bearer A1'')]\<rparr>] \<and>
      getRefreshToken (snd (getAccounts rt (init ''R0'' w))) = ''R1'')"
proof (intro conjI impI)
  show "trace (snd (doApiRequest rt endpoint meth s)) =
      trace s @ [Fetched (api_request (client s) endpoint meth)]"
    by (rule doApiRequest_trace)
  show "http_method (api_request (client s) endpoint meth) = meth"
    by (rule http_method_api_request)
  show "url (api_request (client s) endpoint meth) = b @ endpoint"
    if "apiServer (client s) = b @ ''/''"
    using that by (simp add: api_request_def strip_trailing_slash_snoc)
  show "url (api_request (client s) endpoint meth) = apiServer (client s) @ endpoint"
    if "\<not> suffix ''/'' (apiServer (client s))"
    using that by (simp add: api_request_def strip_trailing_slash_other)
  show "headers (api_request (client s) endpoint meth) =
      [(''Authorization'', ''Bearer '' @ tok)]"
    if "accessToken (client s) = Some tok"
    using that by (simp add: api_request_def template_def)
next
  let ?s0 = "init ''R0'' w :: 'a sys"
  assume h: "fetch rt (refresh_request (constructor ''R0'')) w = (Inr res, w') \<and> ok res \<and>
    json_tokens rt (body_text res) =
      Some \<lparr>access_token = Some ''A1'', refresh_token = ''R1'',
            api_server = ''https://srv1/'', expires_in = 1800\<rparr>"
  have stale: "tokensNeedUpdating rt ?s0"
    by (simp add: tokensNeedUpdating_def falsy_def init_def constructor_def)
  have f: "fetch rt (refresh_request (client ?s0)) (world ?s0) = (Inr res, w')"
    using h by (simp add: init_def)
  note u = updateTokens_ok [OF f, of "\<lparr>access_token = Some ''A1'', refresh_token = ''R1'',
            api_server = ''https://srv1/'', expires_in = 1800\<rparr>"]
  have u': "updateTokens rt ?s0 =
    (Inr (),
     \<lparr>client = \<lparr>refreshToken = ''R1'', accessToken = Some ''A1'',
                expirationTime = getCurrentTimeSeconds rt w' + 1800,
                apiServer = ''https://srv1/''\<rparr>,
      world = w',
      trace = [Fetched (refresh_request (constructor ''R0'')),
                Emitted ''refresh''
                  \<lparr>refreshToken = ''R1'', accessToken = Some ''A1'',
                   expirationTime = getCurrentTimeSeconds rt w' + 1800,
                   apiServer = ''https://srv1/''\<rparr>]\<rparr>)"
    using u h by (simp add: init_def)
  have g: "getAccounts rt ?s0 =
      doApiRequest rt ''/v1/accounts'' ''GET'' (snd (updateTokens rt ?s0))"
    by (rule getAccounts_stale_ok [OF stale, of "()"]) (simp add: u')
  show "fetched (trace (snd (getAccounts rt ?s0))) =
        [refresh_request (constructor ''R0''),
         \<lparr>url = ''https://srv1/v1/accounts'', http_method = ''GET'',
          headers = [(''Authorization'', ''Bearer A1'')]\<rparr>]"
    by (simp add: g u' doApiRequest_trace api_request_def strip_trailing_slash_def
          template_def)
  show "getRefreshToken (snd (getAccounts rt ?s0)) = ''R1''"
    by (simp add: g u' getRefreshToken_def doApiRequest_client)
qed

text \<open>
  Runs of it: a server with a trailing slash, the default server (which has none), and
  the round trip.
\<close>

theorem doApiRequest_target_witness:
  "trace (snd (doApiRequest (mock (resp 200 ''{}'') (resp 200 ''[]'') tokens1)
                 ''/v1/accounts'' ''GET'' fresh_sys)) =
     [Fetched \<lparr>url = ''https://srv1/v1/accounts'', http_method = ''GET'',
               headers = [(''Authorization'', ''Bearer A1'')]\<rparr>] \<and>
   \<not> suffix ''/'' (apiServer (client (init ''R0'' (5000::int)))) \<and>
   url (api_request (client (init ''R0'' (5000::int))) ''/v1/accounts'' ''GET'') =
     ''https://api01.iq.questrade.com/v1/accounts'' \<and>
   ok (resp 200 ''{}'') \<and>
   fetched (trace (snd (getAccounts (mock (resp 200 ''{}'') (resp 200 ''[]'') tokens1)
                          (init ''R0'' 5000)))) =
     [refresh_request (constructor ''R0''),
      \<lparr>url = ''https://srv1/v1/accounts'', http_method = ''GET'',
       headers = [(''Authorization'', ''Bearer A1'')]\<rparr>] \<and>
   getRefreshToken (snd (getAccounts (mock (resp 200 ''{}'') (resp 200 ''[]'') tokens1)
                           (init ''R0'' 5000))) = ''R1''"
  using doApiRequest_target
      [of "mock (resp 200 ''{}'') (resp 200 ''[]'') tokens1" "''/v1/accounts''" "''GET''"
          fresh_sys "''https://srv1''" "''A1''" 5000 "resp 200 ''{}''" 6500]
    doApiRequest_target
      [of "mock (resp 200 ''{}'') (resp 200 ''[]'') tokens1" "''/v1/accounts''" "''GET''"
          "init ''R0'' 5000" "''https://srv1''" "''A1''" 5000 "resp 200 ''{}''" 6500]
  by (simp add: mock_def resp_def ok_def fresh_sys_def init_def constructor_def tokens1_def
        api_request_def refresh_request_def suffix_def)

section \<open>The life of the tokens\<close>

text \<open>
  Claim C9. A new client has the refresh token of the caller, no access token, the
  expiration time \<open>-1\<close> and the default server. Every step (a public method, or the
  world moving on) either leaves the client as it is, or is a call that found the tokens
  in need of a refresh and whose refresh succeeded, and then access token, expiration
  time, refresh token and API server are all those of that one refresh. So in every
  state reached from construction the client is as constructed, or it is, in all four
  fields, the client that one successful refresh built in a state passed on the way; and
  a client that holds an access token is of the second kind, so that its expiration time
  is the time of that refresh plus \<open>expires_in\<close>.
\<close>

theorem tokens_change_only_by_refresh:
  "constructor rtok =
     \<lparr>refreshToken = rtok, accessToken = None, expirationTime = - 1,
      apiServer = ''https://api01.iq.questrade.com''\<rparr> \<and>
   (client (perform rt st s) = client s \<or>
    (tokensNeedUpdating rt s \<and> refreshed_from rt s (client (perform rt st s)))) \<and>
   (client (run rt sts (init rtok w)) = constructor rtok \<or>
    (\<exists>s0 \<in> set (states rt sts (init rtok w)).
       tokensNeedUpdating rt s0 \<and>
       refreshed_from rt s0 (client (run rt sts (init rtok w))))) \<and>
   (accessToken (client (run rt sts (init rtok w))) = Some a \<longrightarrow>
      (\<exists>s0 \<in> set (states rt sts (init rtok w)).
         tokensNeedUpdating rt s0 \<and>
         refreshed_from rt s0 (client (run rt sts (init rtok w)))))"
proof -
  let ?final = "client (run rt sts (init rtok w))"
  let ?refreshed = "\<exists>s0 \<in> set (states rt sts (init rtok w)).
       tokensNeedUpdating rt s0 \<and> refreshed_from rt s0 ?final"
  have new: "constructor rtok =
     \<lparr>refreshToken = rtok, accessToken = None, expirationTime = - 1,
      apiServer = ''https://api01.iq.questrade.com''\<rparr>"
    by (simp add: constructor_def)
  have step: "client (perform rt st s) = client s \<or>
    (tokensNeedUpdating rt s \<and> refreshed_from rt s (client (perform rt st s)))"
    by (rule perform_client)
  have reach: "?final = constructor rtok \<or> ?refreshed"
    using run_client [of rt sts "init rtok w"] by (simp add: init_def)
  have held: "?refreshed" if "accessToken ?final = Some a"
  proof (rule ccontr)
    assume "\<not> ?refreshed"
    with reach have "?final = constructor rtok" by blast
    with that show False by (simp add: constructor_no_token)
  qed
  from new step reach held show ?thesis by blast
qed

text \<open>
  Runs of it, each a call of \<open>getAccounts\<close> on a new client, the world moving on, and
  a read of the access token: the refresh answered with status 400 leaves the client as
  constructed; the refresh that succeeds leaves the client built from the token body;
  and so does the refresh whose body has no access token, which leaves a client without
  access token whose other three fields are those of the body.
\<close>

theorem tokens_change_only_by_refresh_witness:
  "client (run (mock (resp 400 ''Bad Request'') (resp 200 ''[]'') tokens1)
       [Call GetAccounts, Env 9000, Call GetAccessToken] (init ''R0'' 5000)) =
     \<lparr>refreshToken = ''R0'', accessToken = None, expirationTime = - 1,
      apiServer = ''https://api01.iq.questrade.com''\<rparr> \<and>
   accessToken (client (run (mock (resp 200 ''{}'') (resp 200 ''[]'') tokens1)
       [Call GetAccounts, Env 9000, Call GetAccessToken] (init ''R0'' 5000))) = Some ''A1'' \<and>
   tokensNeedUpdating (mock (resp 200 ''{}'') (resp 200 ''[]'') tokens1) (init ''R0'' 5000) \<and>
   refreshed_from (mock (resp 200 ''{}'') (resp 200 ''[]'') tokens1) (init ''R0'' 5000)
     (client (run (mock (resp 200 ''{}'') (resp 200 ''[]'') tokens1)
        [Call GetAccounts, Env 9000, Call GetAccessToken] (init ''R0'' 5000))) \<and>
   client (run (mock (resp 200 ''{}'') (resp 200 ''[]'') tokens1)
       [Call GetAccounts, Env 9000, Call GetAccessToken] (init ''R0'' 5000)) =
     \<lparr>refreshToken = ''R1'', accessToken = Some ''A1'', expirationTime = 1806,
      apiServer = ''https://srv1/''\<rparr> \<and>
   client (run (mock (resp 200 ''{}'') (resp 200 ''[]'') tokens_absent)
       [Call GetAccounts, Env 9000, Call GetAccessToken] (init ''R0'' 5000)) =
     \<lparr>refreshToken = ''R1'', accessToken = None, expirationTime = 1806,
      apiServer = ''https://srv1/''\<rparr> \<and>
   refreshed_from (mock (resp 200 ''{}'') (resp 200 ''[]'') tokens_absent) (init ''R0'' 5000)
     \<lparr>refreshToken = ''R1'', accessToken = None, expirationTime = 1806,
      apiServer = ''https://srv1/''\<rparr>"
  using tokens_change_only_by_refresh
      [of "''R0''" "mock (resp 400 ''Bad Request'') (resp 200 ''[]'') tokens1"
          "Call GetAccounts" "init ''R0'' 5000"
          "[Call GetAccounts, Env 9000, Call GetAccessToken]" 5000 "''A1''"]
    tokens_change_only_by_refresh
      [of "''R0''" "mock (resp 200 ''{}'') (resp 200 ''[]'') tokens1"
          "Call GetAccounts" "init ''R0'' 5000"
          "[Call GetAccounts, Env 9000, Call GetAccessToken]" 5000 "''A1''"]
    tokens_change_only_by_refresh
      [of "''R0''" "mock (resp 200 ''{}'') (resp 200 ''[]'') tokens_absent"
          "Call GetAccounts" "init ''R0'' 5000"
          "[Call GetAccounts, Env 9000, Call GetAccessToken]" 5000 "''A1''"]
  by (simp add: getAccounts_def updateTokens_def doApiRequest_def do_fetch_def Let_def
        tokensNeedUpdating_def falsy_def getCurrentTimeSeconds_def CODE_BAD_REQUEST_def
        refreshed_from_def api_request_def refresh_request_def
        mock_def resp_def ok_def init_def constructor_def tokens1_def tokens_absent_def)

section \<open>The empty access token\<close>

text \<open>
  Claim C10. A client whose access token is the empty string needs a refresh, whatever
  its expiration time; \<open>getAccounts\<close> and \<open>getAccountBalances\<close> then return the same
  result and make the same requests as for the same client without access token.
\<close>

theorem empty_access_token_needs_refresh:
  assumes "accessToken (client s) = Some []"
  shows "tokensNeedUpdating rt s \<and>
         tokensNeedUpdating rt (s\<lparr>client := (client s)\<lparr>expirationTime := t\<rparr>\<rparr>) \<and>
         fst (getAccounts rt s) = fst (getAccounts rt (without_token s)) \<and>
         fetched (trace (snd (getAccounts rt s))) =
           fetched (trace (snd (getAccounts rt (without_token s)))) \<and>
         fst (getAccountBalances rt n s) = fst (getAccountBalances rt n (without_token s)) \<and>
         fetched (trace (snd (getAccountBalances rt n s))) =
           fetched (trace (snd (getAccountBalances rt n (without_token s))))"
proof -
  have stale: "tokensNeedUpdating rt s"
    using assms by (rule empty_token_stale)
  have stale_t: "tokensNeedUpdating rt (s\<lparr>client := (client s)\<lparr>expirationTime := t\<rparr>\<rparr>)"
    using assms by (simp add: tokensNeedUpdating_def falsy_def)
  have acc: "fst (getAccounts rt s) = fst (getAccounts rt (without_token s)) \<and>
      fetched (trace (snd (getAccounts rt s))) =
        fetched (trace (snd (getAccounts rt (without_token s))))"
    using stale without_token_stale [of rt s]
    by (cases "updateTokens rt s")
       (auto simp: getAccounts_def updateTokens_without_token fetched_without_token
             split: sum.splits)
  have bal: "fst (getAccountBalances rt n s) =
        fst (getAccountBalances rt n (without_token s)) \<and>
      fetched (trace (snd (getAccountBalances rt n s))) =
        fetched (trace (snd (getAccountBalances rt n (without_token s))))"
    using stale without_token_stale [of rt s]
    by (cases "updateTokens rt s")
       (auto simp: getAccountBalances_def updateTokens_without_token fetched_without_token
             split: sum.splits)
  from stale stale_t acc bal show ?thesis by simp
qed

text \<open>A run of it: the empty token, 4000 seconds before its expiration time.\<close>

theorem empty_access_token_needs_refresh_witness:
  "accessToken (client empty_token_sys) = Some [] \<and>
   \<not> getCurrentTimeSeconds (mock (resp 200 ''{}'') (resp 200 ''[]'') tokens1)
        (world empty_token_sys) \<ge> expirationTime (client empty_token_sys) - 20 \<and>
   tokensNeedUpdating (mock (resp 200 ''{}'') (resp 200 ''[]'') tokens1) empty_token_sys \<and>
   fst (getAccounts (mock (resp 200 ''{}'') (resp 200 ''[]'') tokens1) empty_token_sys) =
     fst (getAccounts (mock (resp 200 ''{}'') (resp 200 ''[]'') tokens1)
            (without_token empty_token_sys))"
  using empty_access_token_needs_refresh
      [of empty_token_sys "mock (resp 200 ''{}'') (resp 200 ''[]'') tokens1" 5000 "''42''"]
  by (simp add: empty_token_sys_def mock_def getCurrentTimeSeconds_def)

end
